theory Spec2Isabelle
  imports Main
begin

section \<open>JavaScript values\<close>

text \<open>
  The fragment builders of \<^verbatim>\<open>src/index.ts\<close> take and return plain JavaScript values:
  \<^verbatim>\<open>undefined\<close>, primitives, arrays and object literals. An object is the list of its own
  properties in insertion order; a key bound to \<^verbatim>\<open>undefined\<close> is still a key of the object
  (\<^verbatim>\<open>{ gte: 'a', lte: undefined }\<close> has two keys).

  Numbers are compared with zero only and never computed with, so a number is an integer or
  the separate value \<^verbatim>\<open>NaN\<close>; a number with a fraction behaves like a nonzero integer
  everywhere below. A character of a string stands for one code unit.

  \<open>JBuiltin\<close> is a value that is not data but part of the runtime: a built-in function or
  prototype object, which is what reading an inherited name such as \<^verbatim>\<open>toString\<close> or
  \<^verbatim>\<open>constructor\<close> gives. It never occurs inside a parsed response.
\<close>

datatype jsval =
    JUndefined
  | JNull
  | JBool bool
  | JNum int
  | JNaN
  | JStr string
  | JArr "jsval list"
  | JObj "(string \<times> jsval) list"
  | JBuiltin

text \<open>
  Conversion to boolean, as done by \<^verbatim>\<open>value ? a : b\<close>, \<^verbatim>\<open>!value\<close> and a filter whose
  predicate is the identity: \<^verbatim>\<open>undefined\<close>, \<^verbatim>\<open>null\<close>, \<^verbatim>\<open>false\<close>, \<^verbatim>\<open>0\<close>, \<^verbatim>\<open>NaN\<close> and
  \<^verbatim>\<open>''\<close> are falsy, every array, object and function is truthy.
\<close>

fun truthy :: "jsval \<Rightarrow> bool" where
  "truthy JUndefined = False"
| "truthy JNull = False"
| "truthy (JBool b) = b"
| "truthy (JNum n) = (n \<noteq> 0)"
| "truthy JNaN = False"
| "truthy (JStr s) = (s \<noteq> [])"
| "truthy (JArr xs) = True"
| "truthy (JObj kvs) = True"
| "truthy JBuiltin = True"

section \<open>Fragment builders\<close>

subsection \<open>Range comparators\<close>

text \<open>
  \<^verbatim>\<open>
  export function gte<T extends string, V>(field: T, value: V) {
    return value ? { range: { [field]: { gte: value } } } : undefined;
  }
  \<close>
  and the same for \<^verbatim>\<open>lte\<close> and \<^verbatim>\<open>lt\<close> with their own key.
\<close>

definition gte :: "string \<Rightarrow> jsval \<Rightarrow> jsval" where
  "gte field v =
     (if truthy v then JObj [(''range'', JObj [(field, JObj [(''gte'', v)])])]
      else JUndefined)"

definition lte :: "string \<Rightarrow> jsval \<Rightarrow> jsval" where
  "lte field v =
     (if truthy v then JObj [(''range'', JObj [(field, JObj [(''lte'', v)])])]
      else JUndefined)"

definition lt :: "string \<Rightarrow> jsval \<Rightarrow> jsval" where
  "lt field v =
     (if truthy v then JObj [(''range'', JObj [(field, JObj [(''lt'', v)])])]
      else JUndefined)"

text \<open>
  \<^verbatim>\<open>
  export function between<T extends string, V>(field: T, from: V | undefined, to: V | undefined) {
    if (!from && !to) { return undefined; }
    return { range: { [field]: { gte: from, lte: to } } };
  }
  \<close>
\<close>

definition between :: "string \<Rightarrow> jsval \<Rightarrow> jsval \<Rightarrow> jsval" where
  "between field from to =
     (if \<not> truthy from \<and> \<not> truthy to then JUndefined
      else JObj [(''range'', JObj [(field, JObj [(''gte'', from), (''lte'', to)])])])"

subsection \<open>Set membership\<close>

text \<open>
  \<^verbatim>\<open>
  export function isIn<T extends string, V>(field: T, values: V[] | undefined) {
    if (!values) { return undefined; }
    const definedValues = values.filter((x) => x !== undefined);
    return definedValues.length ? { terms: { [field]: definedValues } } : undefined;
  }
  export function equals<T extends string, V>(field: T, value: V | undefined) {
    return isIn(field, [value]);
  }
  \<close>
  The parameter \<^verbatim>\<open>values\<close> has type \<^verbatim>\<open>V[] | undefined\<close>: \<open>None\<close> is \<^verbatim>\<open>undefined\<close>, and an
  array, also the empty one, is truthy. The filter keeps every entry that is not
  \<^verbatim>\<open>undefined\<close>, so \<^verbatim>\<open>null\<close>, \<^verbatim>\<open>0\<close> and \<^verbatim>\<open>''\<close> stay.
\<close>

definition isIn :: "string \<Rightarrow> jsval list option \<Rightarrow> jsval" where
  "isIn field values =
     (case values of
        None \<Rightarrow> JUndefined
      | Some vs \<Rightarrow>
          (let definedValues = filter (\<lambda>x. x \<noteq> JUndefined) vs
           in if length definedValues \<noteq> 0
              then JObj [(''terms'', JObj [(field, JArr definedValues)])]
              else JUndefined))"

definition equals :: "string \<Rightarrow> jsval \<Rightarrow> jsval" where
  "equals field v = isIn field (Some [v])"

subsection \<open>Field selection and top hits\<close>

text \<open>
  \<^verbatim>\<open>
  export function select<Fields extends string[]>(includes: Fields | undefined) {
    return includes ? { includes } : undefined;
  }
  \<close>
\<close>

definition select :: "string list option \<Rightarrow> jsval" where
  "select includes =
     (case includes of
        None \<Rightarrow> JUndefined
      | Some fs \<Rightarrow> JObj [(''includes'', JArr (map JStr fs))])"

text \<open>
  \<^verbatim>\<open>
  export function topHits<...>(size: number | [number, number], sort: Order, fields?: Fields) {
    return {
      tops: {
        top_hits: {
          ...(typeof size === 'number' ? { size } : { from: size[0], size: size[1] }),
          sort,
          _source: select(fields),
        },
      },
    };
  }
  export function lastHit<...>(sort: Order, fields?: Fields) {
    return topHits(1, sort, fields);
  }
  \<close>
  The two alternatives of the type of \<^verbatim>\<open>size\<close> are the two constructors of \<open>size_arg\<close>;
  \<^verbatim>\<open>typeof size === 'number'\<close> tells them apart.
\<close>

datatype size_arg = SizeNumber int | SizePair int int

definition topHits :: "size_arg \<Rightarrow> jsval \<Rightarrow> string list option \<Rightarrow> jsval" where
  "topHits sz sort_order fields =
     JObj [(''tops'',
       JObj [(''top_hits'',
         JObj ((case sz of
                  SizeNumber n \<Rightarrow> [(''size'', JNum n)]
                | SizePair skip n \<Rightarrow> [(''from'', JNum skip), (''size'', JNum n)])
               @ [(''sort'', sort_order), (''_source'', select fields)]))])]"

definition lastHit :: "jsval \<Rightarrow> string list option \<Rightarrow> jsval" where
  "lastHit sort_order fields = topHits (SizeNumber 1) sort_order fields"

subsection \<open>Query envelope\<close>

text \<open>
  \<^verbatim>\<open>
  export function where<Query extends object | undefined>(query: Query | undefined) {
    return query ? { query } : {};
  }
  \<close>
\<close>

definition where_query :: "jsval \<Rightarrow> jsval" where
  "where_query query = (if truthy query then JObj [(''query'', query)] else JObj [])"

section \<open>Combining fragments: object identity\<close>

text \<open>
  \<^verbatim>\<open>
  function andOr<T extends FilterList>(items: T, field: 'should' | 'must') {
    const values = items.filter(identity);
    switch (values.length) {
      case 0:  return undefined;
      case 1:  return values[0];
      default: return { bool: { [field]: values } };
    }
  }
  export function and<T extends FilterList>(items: T) { return andOr(items, 'must'); }
  export function or<T extends FilterList>(items: T)  { return andOr(items, 'should'); }
  \<close>
  \<^verbatim>\<open>andOr\<close> is the one builder that may return one of its arguments, and the unit tests
  compare that result by identity (\<^verbatim>\<open>expect(result).toBe(firstItem)\<close>). Identity is not
  visible in \<open>jsval\<close>, so this function is modelled over a store: an object or array is a
  cell of the store and a value refers to it by its address. Allocation appends a cell, so
  an address names the same object for as long as the store grows.

  \<^verbatim>\<open>items\<close> is passed as the elements of the array, \<^verbatim>\<open>identity\<close> (package
  \<^verbatim>\<open>is-this-a-pigeon\<close>) returns its argument, so the filter keeps the truthy elements, and
  \<^verbatim>\<open>Array.prototype.filter\<close> allocates the array it returns. Of the two object literals of
  the last branch the inner one is allocated first here; the order decides only which
  address each of the two new objects gets.
\<close>

type_synonym ref = nat

datatype val =
    VUndefined
  | VNull
  | VBool bool
  | VNum int
  | VNaN
  | VStr string
  | VRef ref

datatype cell =
    ObjectCell "(string \<times> val) list"
  | ArrayCell "val list"

type_synonym store = "cell list"

fun truthy_val :: "val \<Rightarrow> bool" where
  "truthy_val VUndefined = False"
| "truthy_val VNull = False"
| "truthy_val (VBool b) = b"
| "truthy_val (VNum n) = (n \<noteq> 0)"
| "truthy_val VNaN = False"
| "truthy_val (VStr s) = (s \<noteq> [])"
| "truthy_val (VRef r) = True"

definition alloc :: "store \<Rightarrow> cell \<Rightarrow> ref \<times> store" where
  "alloc h c = (length h, h @ [c])"

definition cell_at :: "store \<Rightarrow> ref \<Rightarrow> cell option" where
  "cell_at h r = (if r < length h then Some (h ! r) else None)"

definition andOr :: "store \<Rightarrow> val list \<Rightarrow> string \<Rightarrow> val \<times> store" where
  "andOr h items field =
     (case alloc h (ArrayCell (filter truthy_val items)) of
        (values, h1) \<Rightarrow>
          (case filter truthy_val items of
             [] \<Rightarrow> (VUndefined, h1)
           | [v] \<Rightarrow> (v, h1)
           | _ \<Rightarrow>
               (case alloc h1 (ObjectCell [(field, VRef values)]) of
                  (inner, h2) \<Rightarrow>
                    (case alloc h2 (ObjectCell [(''bool'', VRef inner)]) of
                       (outer, h3) \<Rightarrow> (VRef outer, h3)))))"

definition and_filter :: "store \<Rightarrow> val list \<Rightarrow> val \<times> store" where
  "and_filter h items = andOr h items ''must''"

definition or_filter :: "store \<Rightarrow> val list \<Rightarrow> val \<times> store" where
  "or_filter h items = andOr h items ''should''"

section \<open>Result flattener\<close>

subsection \<open>Property reads and iteration\<close>

text \<open>
  A property read \<^verbatim>\<open>x[name]\<close>. Reading from \<^verbatim>\<open>undefined\<close> or \<^verbatim>\<open>null\<close> throws a
  \<^verbatim>\<open>TypeError\<close>. Any other value is asked for an own property first: the keys of an object,
  \<^verbatim>\<open>length\<close> and the indices of an array or a string. Failing that, the name is looked up
  along the prototype chain, which ends in \<^verbatim>\<open>Object.prototype\<close> for every value; a name
  found there gives a built-in, and a name found nowhere gives \<^verbatim>\<open>undefined\<close>. The tables
  are those of ECMAScript 2024 with its Annex B.

  A response comes from a JSON parser, so the keys of an object are distinct. From a
  built-in the code reads only \<^verbatim>\<open>buckets\<close> and \<^verbatim>\<open>hits\<close> (a built-in is what \<^verbatim>\<open>x[name]\<close>
  gave, never the bucket \<^verbatim>\<open>x\<close> itself), and no built-in has a property of either name;
  reads of other names from a built-in are not modelled.
\<close>

datatype error = TypeError

definition objectPrototypeNames :: "string list" where
  "objectPrototypeNames =
     [''constructor'', ''__defineGetter__'', ''__defineSetter__'', ''hasOwnProperty'',
      ''__lookupGetter__'', ''__lookupSetter__'', ''isPrototypeOf'', ''propertyIsEnumerable'',
      ''toString'', ''valueOf'', ''__proto__'', ''toLocaleString'']"

definition arrayPrototypeNames :: "string list" where
  "arrayPrototypeNames =
     [''at'', ''concat'', ''copyWithin'', ''entries'', ''every'', ''fill'', ''filter'', ''find'',
      ''findIndex'', ''findLast'', ''findLastIndex'', ''flat'', ''flatMap'', ''forEach'',
      ''includes'', ''indexOf'', ''join'', ''keys'', ''lastIndexOf'', ''map'', ''pop'', ''push'',
      ''reduce'', ''reduceRight'', ''reverse'', ''shift'', ''slice'', ''some'', ''sort'',
      ''splice'', ''toReversed'', ''toSorted'', ''toSpliced'', ''unshift'', ''values'', ''with'']"

definition stringPrototypeNames :: "string list" where
  "stringPrototypeNames =
     [''at'', ''charAt'', ''charCodeAt'', ''codePointAt'', ''concat'', ''endsWith'', ''includes'',
      ''indexOf'', ''isWellFormed'', ''lastIndexOf'', ''localeCompare'', ''match'', ''matchAll'',
      ''normalize'', ''padEnd'', ''padStart'', ''repeat'', ''replace'', ''replaceAll'', ''search'',
      ''slice'', ''split'', ''startsWith'', ''substring'', ''toLocaleLowerCase'',
      ''toLocaleUpperCase'', ''toLowerCase'', ''toUpperCase'', ''toWellFormed'', ''trim'',
      ''trimEnd'', ''trimStart'', ''substr'', ''anchor'', ''big'', ''blink'', ''bold'', ''fixed'',
      ''fontcolor'', ''fontsize'', ''italics'', ''link'', ''small'', ''strike'', ''sub'', ''sup'',
      ''trimLeft'', ''trimRight'']"

definition numberPrototypeNames :: "string list" where
  "numberPrototypeNames = [''toExponential'', ''toFixed'', ''toPrecision'']"

text \<open>
  The names a value inherits. \<^verbatim>\<open>Boolean.prototype\<close> has \<^verbatim>\<open>constructor\<close>, \<^verbatim>\<open>toString\<close> and
  \<^verbatim>\<open>valueOf\<close> only, which \<^verbatim>\<open>Object.prototype\<close> has as well, and so for the names of the
  other prototypes that are left out of their tables above.
\<close>

fun inheritedNames :: "jsval \<Rightarrow> string list" where
  "inheritedNames (JArr xs) = arrayPrototypeNames @ objectPrototypeNames"
| "inheritedNames (JStr s) = stringPrototypeNames @ objectPrototypeNames"
| "inheritedNames (JNum n) = numberPrototypeNames @ objectPrototypeNames"
| "inheritedNames JNaN = numberPrototypeNames @ objectPrototypeNames"
| "inheritedNames (JBool b) = objectPrototypeNames"
| "inheritedNames (JObj kvs) = objectPrototypeNames"
| "inheritedNames v = []"

text \<open>
  An array index as a property name: the decimal numeral of a natural number, without
  leading zeros.
\<close>

definition indexOfKey :: "string \<Rightarrow> nat option" where
  "indexOfKey k =
     (if k = ''0'' then Some 0
      else if k \<noteq> [] \<and> list_all (\<lambda>c. c \<in> set ''0123456789'') k \<and> hd k \<noteq> CHR ''0''
      then Some (foldl (\<lambda>n c. 10 * n + (of_char c - 48)) 0 k)
      else None)"

fun ownProp :: "jsval \<Rightarrow> string \<Rightarrow> jsval option" where
  "ownProp (JObj kvs) k = map_of kvs k"
| "ownProp (JArr xs) k =
     (if k = ''length'' then Some (JNum (int (length xs)))
      else (case indexOfKey k of
              None \<Rightarrow> None
            | Some i \<Rightarrow> (if i < length xs then Some (xs ! i) else None)))"
| "ownProp (JStr s) k =
     (if k = ''length'' then Some (JNum (int (length s)))
      else (case indexOfKey k of
              None \<Rightarrow> None
            | Some i \<Rightarrow> (if i < length s then Some (JStr [s ! i]) else None)))"
| "ownProp v k = None"

fun getProp :: "jsval \<Rightarrow> string \<Rightarrow> error + jsval" where
  "getProp JUndefined k = Inl TypeError"
| "getProp JNull k = Inl TypeError"
| "getProp v k =
     Inr (case ownProp v k of
            Some x \<Rightarrow> x
          | None \<Rightarrow> (if k \<in> set (inheritedNames v) then JBuiltin else JUndefined))"

text \<open>
  What a \<^verbatim>\<open>for ... of\<close> or \<^verbatim>\<open>yield*\<close> over a value produces: the elements of an array,
  the characters of a string, and a \<^verbatim>\<open>TypeError\<close> for a value that is not iterable.
\<close>

fun iterate :: "jsval \<Rightarrow> error + jsval list" where
  "iterate (JArr xs) = Inr xs"
| "iterate (JStr s) = Inr (map (\<lambda>c. JStr [c]) s)"
| "iterate v = Inl TypeError"

subsection \<open>The lazy sequence\<close>

text \<open>
  Modelled from the spec: the lazy-sequence utility (\<^verbatim>\<open>fluent\<close>, \<^verbatim>\<open>filter\<close>, \<^verbatim>\<open>flatMap\<close>
  and \<^verbatim>\<open>map\<close> of the package \<^verbatim>\<open>@codibre/fluent-iterable\<close>) is supplied from outside and its
  code is not part of the repository. The spec describes it as a forward-only, demand-driven
  chain of pure transformations (filter-then-flatmap, or map) over a source that is already
  in memory, in which each pull does exactly the upstream work needed for one more element,
  which preserves source order and in which \<^verbatim>\<open>filter()\<close> without a predicate discards the
  falsy entries.

  A sequence is therefore what its consumer observes when draining it: the elements
  yielded, in order, and the error that ended the iteration, if one did. A callback that
  throws on some element ends the iteration there, after the elements produced from the
  earlier ones.
\<close>

type_synonym FluentIterable = "jsval list \<times> error option"

definition fluent :: "jsval \<Rightarrow> FluentIterable" where
  "fluent v = (case iterate v of Inl e \<Rightarrow> ([], Some e) | Inr xs \<Rightarrow> (xs, None))"

definition filter_fluent :: "FluentIterable \<Rightarrow> FluentIterable" where
  "filter_fluent s = (filter truthy (fst s), snd s)"

fun flatMap_items ::
  "(jsval \<Rightarrow> error + jsval) \<Rightarrow> jsval list \<Rightarrow> error option \<Rightarrow> FluentIterable" where
  "flatMap_items f [] e = ([], e)"
| "flatMap_items f (x # xs) e =
     (case f x of
        Inl err \<Rightarrow> ([], Some err)
      | Inr v \<Rightarrow>
          (case iterate v of
             Inl err \<Rightarrow> ([], Some err)
           | Inr ys \<Rightarrow> (ys @ fst (flatMap_items f xs e), snd (flatMap_items f xs e))))"

definition flatMap :: "(jsval \<Rightarrow> error + jsval) \<Rightarrow> FluentIterable \<Rightarrow> FluentIterable" where
  "flatMap f s = flatMap_items f (fst s) (snd s)"

fun map_items ::
  "(jsval \<Rightarrow> error + jsval) \<Rightarrow> jsval list \<Rightarrow> error option \<Rightarrow> FluentIterable" where
  "map_items f [] e = ([], e)"
| "map_items f (x # xs) e =
     (case f x of
        Inl err \<Rightarrow> ([], Some err)
      | Inr y \<Rightarrow> (y # fst (map_items f xs e), snd (map_items f xs e)))"

definition map_fluent :: "(jsval \<Rightarrow> error + jsval) \<Rightarrow> FluentIterable \<Rightarrow> FluentIterable" where
  "map_fluent f s = map_items f (fst s) (snd s)"

subsection \<open>The bucket-path walker\<close>

text \<open>
  \<^verbatim>\<open>
  export function flatTermsAggregations<T>(
    response: ApiResponse, firstAgg: string, ...others: string[]): FluentIterable<T> {
    const aggregations = response.body?.aggregations;
    if (!aggregations) {
      return fluent([] as T[]);
    }
    let result = fluent(aggregations[firstAgg].buckets as any[]);
    for (let i = 0; i < others.length; i++) {
      result = result.filter().flatMap((x: any) => x[others[i]].buckets);
    }
    return result;
  }
  \<close>
  The function itself can throw (reading \<^verbatim>\<open>.buckets\<close> of a missing aggregation happens
  before any sequence exists), so its result is an error or a sequence. The loop variable is
  declared with \<^verbatim>\<open>let\<close>, so each callback reads the name of its own round.
\<close>

definition bucketsOf :: "string \<Rightarrow> jsval \<Rightarrow> error + jsval" where
  "bucketsOf name x =
     (case getProp x name of Inl e \<Rightarrow> Inl e | Inr agg \<Rightarrow> getProp agg ''buckets'')"

fun walk :: "FluentIterable \<Rightarrow> string list \<Rightarrow> FluentIterable" where
  "walk result [] = result"
| "walk result (name # names) = walk (flatMap (bucketsOf name) (filter_fluent result)) names"

definition aggregationsOf :: "jsval \<Rightarrow> error + jsval" where
  "aggregationsOf response =
     (case getProp response ''body'' of
        Inl e \<Rightarrow> Inl e
      | Inr body \<Rightarrow>
          (if body = JUndefined \<or> body = JNull then Inr JUndefined
           else getProp body ''aggregations''))"

definition flatTermsAggregations ::
  "jsval \<Rightarrow> string \<Rightarrow> string list \<Rightarrow> error + FluentIterable" where
  "flatTermsAggregations response firstAgg others =
     (case aggregationsOf response of
        Inl e \<Rightarrow> Inl e
      | Inr aggregations \<Rightarrow>
          (if \<not> truthy aggregations then Inr (fluent (JArr []))
           else (case bucketsOf firstAgg aggregations of
                   Inl e \<Rightarrow> Inl e
                 | Inr buckets \<Rightarrow> Inr (walk (fluent buckets) others))))"

subsection \<open>The top-hits unwrapper\<close>

text \<open>
  \<^verbatim>\<open>
  export function flatTopHitsAggregation<T>(
    response: FluentIterable<any>, aggName = 'tops'): FluentIterable<T> {
    return response
      .filter()
      .flatMap((x) => x[aggName].hits.hits)
      .map((x: any) => x._source);
  }
  \<close>
  A default parameter applies when the argument is left out, which is \<open>None\<close> here.
\<close>

definition hitsOf :: "string \<Rightarrow> jsval \<Rightarrow> error + jsval" where
  "hitsOf aggName x =
     (case getProp x aggName of
        Inl e \<Rightarrow> Inl e
      | Inr agg \<Rightarrow>
          (case getProp agg ''hits'' of
             Inl e \<Rightarrow> Inl e
           | Inr h \<Rightarrow> getProp h ''hits''))"

definition flatTopHitsAggregation :: "FluentIterable \<Rightarrow> string option \<Rightarrow> FluentIterable" where
  "flatTopHitsAggregation response aggName =
     map_fluent (\<lambda>x. getProp x ''_source'')
       (flatMap (hitsOf (case aggName of None \<Rightarrow> ''tops'' | Some n \<Rightarrow> n))
          (filter_fluent response))"

subsection \<open>The end-to-end scenario of the specification\<close>

text \<open>
  The response body
  \<^verbatim>\<open>
  { aggregations: { byCategory: { buckets: [
      { key:'a', tops:{hits:{hits:[{_source:{id:1}}]}} },
      { key:'b', tops:{hits:{hits:[{_source:{id:2}},{_source:{id:3}}]}} } ] } } }
  \<close>
  The walker reads it from the \<^verbatim>\<open>body\<close> property of the client's response object.
\<close>

definition scenario_buckets :: "jsval list" where
  "scenario_buckets =
     [JObj [(''key'', JStr ''a''),
            (''tops'', JObj [(''hits'', JObj [(''hits'',
               JArr [JObj [(''_source'', JObj [(''id'', JNum 1)])]])])])],
      JObj [(''key'', JStr ''b''),
            (''tops'', JObj [(''hits'', JObj [(''hits'',
               JArr [JObj [(''_source'', JObj [(''id'', JNum 2)])],
                     JObj [(''_source'', JObj [(''id'', JNum 3)])]])])])]]"

definition scenario_body :: jsval where
  "scenario_body =
     JObj [(''aggregations'',
       JObj [(''byCategory'', JObj [(''buckets'', JArr scenario_buckets)])])]"

definition scenario_response :: jsval where
  "scenario_response = JObj [(''body'', scenario_body)]"

section \<open>Properties of the fragment builders\<close>

text \<open>
  C6. For every field name and value, each of \<^verbatim>\<open>gte\<close>, \<^verbatim>\<open>lte\<close> and \<^verbatim>\<open>lt\<close> returns
  \<^verbatim>\<open>undefined\<close> if and only if the value is falsy; otherwise it returns a range fragment
  keyed by the field whose body has exactly one boundary key (\<^verbatim>\<open>gte\<close>, \<^verbatim>\<open>lte\<close> or \<^verbatim>\<open>lt\<close>
  respectively), bound to the given value.
\<close>

theorem range_comparators:
  "(gte field v = JUndefined \<longleftrightarrow> \<not> truthy v)
   \<and> (lte field v = JUndefined \<longleftrightarrow> \<not> truthy v)
   \<and> (lt field v = JUndefined \<longleftrightarrow> \<not> truthy v)
   \<and> (truthy v \<longrightarrow>
        gte field v = JObj [(''range'', JObj [(field, JObj [(''gte'', v)])])]
        \<and> lte field v = JObj [(''range'', JObj [(field, JObj [(''lte'', v)])])]
        \<and> lt field v = JObj [(''range'', JObj [(field, JObj [(''lt'', v)])])])"
  by (simp add: gte_def lte_def lt_def)

theorem range_comparators_witness:
  "truthy (JStr ''myValue'')
   \<and> gte ''myField'' (JStr ''myValue'')
       = JObj [(''range'', JObj [(''myField'', JObj [(''gte'', JStr ''myValue'')])])]
   \<and> lte ''myField'' (JStr ''myValue'')
       = JObj [(''range'', JObj [(''myField'', JObj [(''lte'', JStr ''myValue'')])])]
   \<and> lt ''myField'' (JStr ''myValue'')
       = JObj [(''range'', JObj [(''myField'', JObj [(''lt'', JStr ''myValue'')])])]
   \<and> gte ''myField'' (JStr ''myValue'') \<noteq> JUndefined"
  using range_comparators [of "''myField''" "JStr ''myValue''"] by simp

text \<open>
  C5, as stated, promises a range fragment from \<^verbatim>\<open>between(field, v, undefined)\<close> for every
  given \<^verbatim>\<open>v\<close>. The guard \<^verbatim>\<open>!from && !to\<close> tests for falsy values, not for \<^verbatim>\<open>undefined\<close>:
  with the boundary \<^verbatim>\<open>0\<close> and no upper boundary the result is \<^verbatim>\<open>undefined\<close>.
\<close>

theorem between_falsy_boundary:
  "between ''price'' (JNum 0) JUndefined = JUndefined
   \<and> between ''price'' (JNum 0) JUndefined
       \<noteq> JObj [(''range'', JObj [(''price'', JObj [(''gte'', JNum 0), (''lte'', JUndefined)])])]"
  by (simp add: between_def)

text \<open>
  C5, amended. For every field name: \<^verbatim>\<open>between(field, undefined, undefined)\<close> returns
  \<^verbatim>\<open>undefined\<close>; for a truthy \<^verbatim>\<open>v\<close>, \<^verbatim>\<open>between(field, v, undefined)\<close> returns a range fragment
  with both keys present, \<^verbatim>\<open>gte\<close> bound to \<^verbatim>\<open>v\<close> and \<^verbatim>\<open>lte\<close> to \<^verbatim>\<open>undefined\<close>, and
  \<^verbatim>\<open>between(field, undefined, v)\<close> one with \<^verbatim>\<open>gte\<close> bound to \<^verbatim>\<open>undefined\<close> and \<^verbatim>\<open>lte\<close> to
  \<^verbatim>\<open>v\<close>; \<^verbatim>\<open>between(field, v1, v2)\<close> returns a range fragment with both boundaries bound as
  given whenever at least one of them is truthy, and \<^verbatim>\<open>undefined\<close> when both are falsy.
\<close>

theorem between_cases:
  "between field JUndefined JUndefined = JUndefined
   \<and> (truthy v \<longrightarrow>
        between field v JUndefined
          = JObj [(''range'', JObj [(field, JObj [(''gte'', v), (''lte'', JUndefined)])])])
   \<and> (truthy v \<longrightarrow>
        between field JUndefined v
          = JObj [(''range'', JObj [(field, JObj [(''gte'', JUndefined), (''lte'', v)])])])
   \<and> (truthy v1 \<or> truthy v2 \<longrightarrow>
        between field v1 v2
          = JObj [(''range'', JObj [(field, JObj [(''gte'', v1), (''lte'', v2)])])])
   \<and> (\<not> truthy v1 \<and> \<not> truthy v2 \<longrightarrow> between field v1 v2 = JUndefined)"
  by (simp add: between_def)

theorem between_cases_witness:
  "truthy (JStr ''myValue'') \<and> (truthy (JNum 1) \<or> truthy (JNum 0))
   \<and> between ''myField'' (JStr ''myValue'') JUndefined
        = JObj [(''range'', JObj [(''myField'',
            JObj [(''gte'', JStr ''myValue''), (''lte'', JUndefined)])])]
   \<and> between ''myField'' JUndefined (JStr ''myValue'')
        = JObj [(''range'', JObj [(''myField'',
            JObj [(''gte'', JUndefined), (''lte'', JStr ''myValue'')])])]
   \<and> between ''myField'' (JNum 1) (JNum 0)
        = JObj [(''range'', JObj [(''myField'', JObj [(''gte'', JNum 1), (''lte'', JNum 0)])])]
   \<and> \<not> truthy JNull \<and> \<not> truthy (JStr [])
   \<and> between ''myField'' JNull (JStr []) = JUndefined"
  using between_cases [of "''myField''" "JStr ''myValue''" "JNum 1" "JNum 0"]
    between_cases [of "''myField''" "JStr ''myValue''" JNull "JStr []"]
  by simp

text \<open>
  C4. For every field name: \<^verbatim>\<open>isIn(field, [])\<close> and \<^verbatim>\<open>isIn(field, undefined)\<close> return
  \<^verbatim>\<open>undefined\<close>; \<^verbatim>\<open>isIn(field, [undefined])\<close> returns \<^verbatim>\<open>undefined\<close>, because the entries that
  are \<^verbatim>\<open>undefined\<close> are filtered out before the emptiness check; and \<^verbatim>\<open>isIn(field, [v])\<close> for
  a defined \<^verbatim>\<open>v\<close> returns a terms fragment over the filtered singleton collection.
\<close>

theorem isIn_cases:
  "isIn field (Some []) = JUndefined
   \<and> isIn field None = JUndefined
   \<and> isIn field (Some [JUndefined]) = JUndefined
   \<and> (v \<noteq> JUndefined \<longrightarrow>
        isIn field (Some [v]) = JObj [(''terms'', JObj [(field, JArr [v])])])"
  by (simp add: isIn_def)

theorem isIn_cases_witness:
  "JNum 0 \<noteq> JUndefined
   \<and> isIn ''status'' (Some [JNum 0]) = JObj [(''terms'', JObj [(''status'', JArr [JNum 0])])]
   \<and> isIn ''status'' (Some [JUndefined]) = JUndefined"
  using isIn_cases [of "''status''" "JNum 0"] by simp

text \<open>
  C8. For every field name and every optional value \<^verbatim>\<open>v\<close>, \<^verbatim>\<open>equals(field, v)\<close> returns what
  \<^verbatim>\<open>isIn(field, [v])\<close> returns; in particular \<^verbatim>\<open>equals(field, undefined)\<close> returns
  \<^verbatim>\<open>undefined\<close>.
\<close>

theorem equals_is_isIn_singleton:
  "equals field v = isIn field (Some [v]) \<and> equals field JUndefined = JUndefined"
  by (simp add: equals_def isIn_def)

text \<open>
  C9. For every sort order and optional list of fields: a size given as a pair of numbers
  puts \<^verbatim>\<open>from\<close> (the first number) and \<^verbatim>\<open>size\<close> (the second) into \<^verbatim>\<open>tops.top_hits\<close>, a plain
  number puts only \<^verbatim>\<open>size\<close> there, and \<^verbatim>\<open>lastHit(sort, fields)\<close> is
  \<^verbatim>\<open>topHits(1, sort, fields)\<close>.
\<close>

theorem topHits_size_forms:
  "topHits (SizePair skip n) sort_order fields
     = JObj [(''tops'', JObj [(''top_hits'',
         JObj [(''from'', JNum skip), (''size'', JNum n), (''sort'', sort_order),
               (''_source'', select fields)])])]
   \<and> topHits (SizeNumber n) sort_order fields
     = JObj [(''tops'', JObj [(''top_hits'',
         JObj [(''size'', JNum n), (''sort'', sort_order), (''_source'', select fields)])])]
   \<and> lastHit sort_order fields = topHits (SizeNumber 1) sort_order fields"
  by (simp add: topHits_def lastHit_def)

text \<open>
  C7. \<^verbatim>\<open>where(undefined)\<close> returns the empty object, and \<^verbatim>\<open>where(fragment)\<close> returns
  \<^verbatim>\<open>{ query: fragment }\<close> for a fragment that is present. A fragment is an object
  (\<^verbatim>\<open>Query extends object | undefined\<close>), and every object is truthy.
\<close>

theorem where_query_cases:
  "where_query JUndefined = JObj []
   \<and> where_query (JObj kvs) = JObj [(''query'', JObj kvs)]
   \<and> (truthy query \<longrightarrow> where_query query = JObj [(''query'', query)])"
  by (simp add: where_query_def)

theorem where_query_cases_witness:
  "truthy (JObj [(''terms'', JObj [(''status'', JArr [JStr ''open''])])])
   \<and> where_query (JObj [(''terms'', JObj [(''status'', JArr [JStr ''open''])])])
       = JObj [(''query'', JObj [(''terms'', JObj [(''status'', JArr [JStr ''open''])])])]"
  using where_query_cases [of "[]" "JObj [(''terms'', JObj [(''status'', JArr [JStr ''open''])])]"]
  by simp

section \<open>Properties of the result flattener\<close>

lemma aggregationsOf_scenario:
  "aggregationsOf scenario_response
     = Inr (JObj [(''byCategory'', JObj [(''buckets'', JArr scenario_buckets)])])"
  by (simp add: aggregationsOf_def scenario_response_def scenario_body_def)

lemma scenario_walk:
  "flatTermsAggregations scenario_response ''byCategory'' [] = Inr (scenario_buckets, None)"
  by (simp add: flatTermsAggregations_def aggregationsOf_scenario bucketsOf_def fluent_def)

lemma scenario_unwrap:
  "flatTopHitsAggregation (scenario_buckets, None) None
     = ([JObj [(''id'', JNum 1)], JObj [(''id'', JNum 2)], JObj [(''id'', JNum 3)]], None)"
  by (simp add: flatTopHitsAggregation_def map_fluent_def flatMap_def filter_fluent_def
      hitsOf_def scenario_buckets_def)

text \<open>
  C1. On the response whose body is the scenario's literal, the walker with first
  aggregation name \<^verbatim>\<open>byCategory\<close> and no further names returns the two buckets, and the
  top-hits unwrapper with the default aggregation name turns them into exactly
  \<^verbatim>\<open>[{id:1},{id:2},{id:3}]\<close>, in bucket-then-hit order and without an error.
\<close>

theorem end_to_end_scenario:
  "flatTermsAggregations scenario_response ''byCategory'' [] = Inr (scenario_buckets, None)
   \<and> flatTopHitsAggregation (scenario_buckets, None) None
       = ([JObj [(''id'', JNum 1)], JObj [(''id'', JNum 2)], JObj [(''id'', JNum 3)]], None)"
  using scenario_walk scenario_unwrap by simp

text \<open>
  The literal is the body of the response: the walker given the literal itself, with no
  \<^verbatim>\<open>body\<close> around it, finds no aggregations section and returns the empty sequence.
\<close>

lemma scenario_body_without_envelope:
  "flatTermsAggregations scenario_body ''byCategory'' [] = Inr ([], None)"
  by (simp add: flatTermsAggregations_def aggregationsOf_def scenario_body_def fluent_def
      objectPrototypeNames_def)

text \<open>
  C10. For every response whose aggregations section is present and holds, under the first
  aggregation name, a list of buckets: with no further names the walker returns exactly that
  list, falsy entries included. The falsy entries are dropped only where the walk descends
  through a further name, and by the top-hits unwrapper.
\<close>

theorem first_level_buckets_unfiltered:
  assumes "aggregationsOf response = Inr aggregations"
    and "truthy aggregations"
    and "bucketsOf firstAgg aggregations = Inr (JArr bs)"
  shows "flatTermsAggregations response firstAgg [] = Inr (bs, None)
    \<and> flatTermsAggregations response firstAgg (name # names)
           = Inr (walk (filter truthy bs, None) (name # names))
    \<and> flatTopHitsAggregation (bs, None) aggName
           = flatTopHitsAggregation (filter truthy bs, None) aggName"
  using assms
  by (simp add: flatTermsAggregations_def fluent_def filter_fluent_def flatTopHitsAggregation_def)

theorem first_level_buckets_unfiltered_witness:
  "flatTermsAggregations
     (JObj [(''body'', JObj [(''aggregations'',
        JObj [(''byCategory'', JObj [(''buckets'',
          JArr [JNull, JObj [(''key'', JStr ''a'')], JNum 0])])])])])
     ''byCategory'' []
   = Inr ([JNull, JObj [(''key'', JStr ''a'')], JNum 0], None)"
proof -
  let ?aggs = "JObj [(''byCategory'', JObj [(''buckets'',
          JArr [JNull, JObj [(''key'', JStr ''a'')], JNum 0])])]"
  let ?r = "JObj [(''body'', JObj [(''aggregations'', ?aggs)])]"
  have a: "aggregationsOf ?r = Inr ?aggs"
    by (simp add: aggregationsOf_def)
  have t: "truthy ?aggs"
    by simp
  have b: "bucketsOf ''byCategory'' ?aggs
             = Inr (JArr [JNull, JObj [(''key'', JStr ''a'')], JNum 0])"
    by (simp add: bucketsOf_def)
  from first_level_buckets_unfiltered [OF a t b] show ?thesis
    by simp
qed

subsection \<open>Missing parts of the response\<close>

lemma failure_is_TypeError: "e \<noteq> None \<longleftrightarrow> e = Some TypeError"
  by (cases e) (auto intro: error.exhaust)

lemma flatMap_items_failure_kept: "snd (flatMap_items f xs (Some e)) \<noteq> None"
  by (induction xs) (auto split: sum.splits)

lemma flatMap_items_callback_fails:
  "x \<in> set xs \<Longrightarrow> f x = Inl err \<Longrightarrow> snd (flatMap_items f xs e) \<noteq> None"
  by (induction xs) (auto split: sum.splits)

text \<open>A sequence that ends with an error still ends with one after any further descent.\<close>

lemma walk_failure_kept: "snd s \<noteq> None \<Longrightarrow> snd (walk s names) \<noteq> None"
proof (induction names arbitrary: s)
  case Nil
  then show ?case by simp
next
  case (Cons name names)
  from Cons.prems obtain e where "snd s = Some e" by auto
  then have "snd (flatMap (bucketsOf name) (filter_fluent s)) \<noteq> None"
    by (simp add: flatMap_def filter_fluent_def flatMap_items_failure_kept)
  then show ?case
    using Cons.IH by simp
qed

lemma walk_append: "walk s (pre @ post) = walk (walk s pre) post"
  by (induction pre arbitrary: s) simp_all

text \<open>
  An object gives \<^verbatim>\<open>undefined\<close> for a name that is neither one of its keys nor inherited,
  and a built-in for an inherited one.
\<close>

lemma getProp_object_missing:
  "map_of kvs k = None \<Longrightarrow> k \<notin> set objectPrototypeNames \<Longrightarrow> getProp (JObj kvs) k = Inr JUndefined"
  by simp

lemma getProp_object_inherited:
  "map_of kvs k = None \<Longrightarrow> k \<in> set objectPrototypeNames \<Longrightarrow> getProp (JObj kvs) k = Inr JBuiltin"
  by simp

lemma bucketsOf_missing: "getProp x name = Inr JUndefined \<Longrightarrow> bucketsOf name x = Inl TypeError"
  by (simp add: bucketsOf_def)

lemma walk_missing_name:
  assumes "x \<in> set (fst s)" and "truthy x" and "getProp x name = Inr JUndefined"
  shows "snd (walk s (name # names)) = Some TypeError"
proof -
  from assms(1,2) have "x \<in> set (fst (filter_fluent s))"
    by (simp add: filter_fluent_def)
  then have "snd (flatMap (bucketsOf name) (filter_fluent s)) \<noteq> None"
    using bucketsOf_missing [OF assms(3)]
    by (simp add: flatMap_def flatMap_items_callback_fails)
  then have "snd (walk (flatMap (bucketsOf name) (filter_fluent s)) names) \<noteq> None"
    by (rule walk_failure_kept)
  then show ?thesis
    using failure_is_TypeError [of "snd (walk s (name # names))"] by simp
qed

lemma walk_continues:
  assumes "flatTermsAggregations response firstAgg pre = Inr (xs, e)" and "x \<in> set xs"
  shows "flatTermsAggregations response firstAgg (pre @ post) = Inr (walk (xs, e) post)"
  using assms
  by (auto simp: flatTermsAggregations_def walk_append fluent_def split: sum.splits if_splits)

text \<open>
  C3, as stated, has the walker return an empty sequence exactly when the aggregations
  section is absent. An aggregation that is present and whose bucket list is empty gives an
  empty sequence as well, and no error.
\<close>

theorem empty_bucket_list_counterexample:
  "aggregationsOf
     (JObj [(''body'', JObj [(''aggregations'',
        JObj [(''byCategory'', JObj [(''buckets'', JArr [])])])])])
     = Inr (JObj [(''byCategory'', JObj [(''buckets'', JArr [])])])
   \<and> truthy (JObj [(''byCategory'', JObj [(''buckets'', JArr [])])])
   \<and> flatTermsAggregations
        (JObj [(''body'', JObj [(''aggregations'',
           JObj [(''byCategory'', JObj [(''buckets'', JArr [])])])])])
        ''byCategory'' []
       = Inr ([], None)"
  by (simp add: aggregationsOf_def flatTermsAggregations_def bucketsOf_def fluent_def)

text \<open>
  C3, amended. For every response and every path: when the aggregations section is absent
  (\<^verbatim>\<open>response.body?.aggregations\<close> is falsy) the walker returns the empty sequence and no
  error; when the section is an object that neither has the first aggregation name as a key
  nor inherits it from \<^verbatim>\<open>Object.prototype\<close> (as it does \<^verbatim>\<open>toString\<close>, \<^verbatim>\<open>constructor\<close> or
  \<^verbatim>\<open>__proto__\<close>), the call throws a \<^verbatim>\<open>TypeError\<close>; and when a bucket object that the walk
  reaches neither has nor inherits the next name of the path, the returned sequence ends
  with the \<^verbatim>\<open>TypeError\<close> instead of completing.
\<close>

theorem missing_parts:
  "(aggregationsOf response = Inr aggregations \<and> \<not> truthy aggregations \<longrightarrow>
      flatTermsAggregations response firstAgg others = Inr ([], None))
   \<and> (aggregationsOf response = Inr (JObj kvs) \<and> map_of kvs firstAgg = None
        \<and> firstAgg \<notin> set objectPrototypeNames \<longrightarrow>
      flatTermsAggregations response firstAgg others = Inl TypeError)
   \<and> (flatTermsAggregations response firstAgg pre = Inr (xs, e)
        \<and> JObj bucket \<in> set xs \<and> map_of bucket name = None
        \<and> name \<notin> set objectPrototypeNames \<longrightarrow>
      (\<exists>ys. flatTermsAggregations response firstAgg (pre @ name # post)
               = Inr (ys, Some TypeError)))"
proof (intro conjI impI)
  assume "aggregationsOf response = Inr aggregations \<and> \<not> truthy aggregations"
  then show "flatTermsAggregations response firstAgg others = Inr ([], None)"
    by (simp add: flatTermsAggregations_def fluent_def)
next
  assume h: "aggregationsOf response = Inr (JObj kvs) \<and> map_of kvs firstAgg = None
        \<and> firstAgg \<notin> set objectPrototypeNames"
  then have "getProp (JObj kvs) firstAgg = Inr JUndefined"
    by (simp add: getProp_object_missing)
  then have "bucketsOf firstAgg (JObj kvs) = Inl TypeError"
    by (rule bucketsOf_missing)
  with h show "flatTermsAggregations response firstAgg others = Inl TypeError"
    by (simp add: flatTermsAggregations_def)
next
  assume h: "flatTermsAggregations response firstAgg pre = Inr (xs, e)
        \<and> JObj bucket \<in> set xs \<and> map_of bucket name = None
        \<and> name \<notin> set objectPrototypeNames"
  then have "flatTermsAggregations response firstAgg (pre @ name # post)
               = Inr (walk (xs, e) (name # post))"
    by (intro walk_continues [of _ _ _ _ _ "JObj bucket"]) simp_all
  moreover from h have "getProp (JObj bucket) name = Inr JUndefined"
    by (simp add: getProp_object_missing)
  with h have "snd (walk (xs, e) (name # post)) = Some TypeError"
    by (intro walk_missing_name [of "JObj bucket"]) simp_all
  ultimately show "\<exists>ys. flatTermsAggregations response firstAgg (pre @ name # post)
               = Inr (ys, Some TypeError)"
    by (metis prod.collapse)
qed

theorem missing_parts_witness:
  "flatTermsAggregations (JObj [(''body'', JObj [(''took'', JNum 3)])]) ''byCategory'' [''sub'']
     = Inr ([], None)
   \<and> flatTermsAggregations
        (JObj [(''body'', JObj [(''aggregations'',
           JObj [(''byBrand'', JObj [(''buckets'', JArr [])])])])])
        ''byCategory'' [''sub'']
     = Inl TypeError
   \<and> (\<exists>ys. flatTermsAggregations
        (JObj [(''body'', JObj [(''aggregations'',
           JObj [(''byCategory'', JObj [(''buckets'',
             JArr [JObj [(''key'', JStr ''a''),
                         (''sub'', JObj [(''buckets'', JArr [JObj [(''key'', JStr ''x'')]])])],
                   JObj [(''key'', JStr ''b'')]])])])])])
        ''byCategory'' ([] @ ''sub'' # [])
     = Inr (ys, Some TypeError))"
proof (intro conjI)
  let ?r0 = "JObj [(''body'', JObj [(''took'', JNum 3)])]"
  have "aggregationsOf ?r0 = Inr JUndefined \<and> \<not> truthy JUndefined"
    by (simp add: aggregationsOf_def objectPrototypeNames_def)
  with missing_parts [where response = ?r0 and aggregations = JUndefined
      and firstAgg = "''byCategory''" and others = "[''sub'']"]
  show "flatTermsAggregations ?r0 ''byCategory'' [''sub''] = Inr ([], None)"
    by blast
next
  let ?k1 = "[(''byBrand'', JObj [(''buckets'', JArr [])])]"
  let ?r1 = "JObj [(''body'', JObj [(''aggregations'', JObj ?k1)])]"
  have "aggregationsOf ?r1 = Inr (JObj ?k1) \<and> map_of ?k1 ''byCategory'' = None
        \<and> ''byCategory'' \<notin> set objectPrototypeNames"
    by (simp add: aggregationsOf_def objectPrototypeNames_def)
  with missing_parts [where response = ?r1 and kvs = ?k1 and firstAgg = "''byCategory''"
      and others = "[''sub'']"]
  show "flatTermsAggregations ?r1 ''byCategory'' [''sub''] = Inl TypeError"
    by blast
next
  let ?b1 = "JObj [(''key'', JStr ''a''),
                   (''sub'', JObj [(''buckets'', JArr [JObj [(''key'', JStr ''x'')]])])]"
  let ?k2 = "[(''key'', JStr ''b'')]"
  let ?a2 = "JObj [(''byCategory'', JObj [(''buckets'', JArr [?b1, JObj ?k2])])]"
  let ?r2 = "JObj [(''body'', JObj [(''aggregations'', ?a2)])]"
  have "flatTermsAggregations ?r2 ''byCategory'' [] = Inr ([?b1, JObj ?k2], None)
        \<and> JObj ?k2 \<in> set [?b1, JObj ?k2] \<and> map_of ?k2 ''sub'' = None
        \<and> ''sub'' \<notin> set objectPrototypeNames"
    by (simp add: aggregationsOf_def flatTermsAggregations_def bucketsOf_def fluent_def
        objectPrototypeNames_def)
  with missing_parts [where response = ?r2 and firstAgg = "''byCategory''"
      and pre = "[]" and xs = "[?b1, JObj ?k2]" and e = None and bucket = ?k2
      and name = "''sub''" and post = "[]"]
  show "\<exists>ys. flatTermsAggregations ?r2 ''byCategory'' ([] @ ''sub'' # [])
          = Inr (ys, Some TypeError)"
    by blast
qed

text \<open>
  An inherited name is not a missing one. With \<^verbatim>\<open>toString\<close> as the first aggregation name
  the read gives a built-in function, whose \<^verbatim>\<open>buckets\<close> is \<^verbatim>\<open>undefined\<close>: the call returns,
  and the sequence fails when it is consumed.
\<close>

lemma inherited_first_name:
  "flatTermsAggregations
     (JObj [(''body'', JObj [(''aggregations'', JObj [(''x'', JNum 1)])])]) ''toString'' []
   = Inr ([], Some TypeError)"
  by (simp add: aggregationsOf_def flatTermsAggregations_def bucketsOf_def fluent_def
      objectPrototypeNames_def)

text \<open>
  In that last response the first bucket has the sub-aggregation and the second has not: the
  consumer receives the leaf bucket of the first and then the error.
\<close>

lemma partial_then_error:
  "flatTermsAggregations
     (JObj [(''body'', JObj [(''aggregations'',
        JObj [(''byCategory'', JObj [(''buckets'',
          JArr [JObj [(''key'', JStr ''a''),
                      (''sub'', JObj [(''buckets'', JArr [JObj [(''key'', JStr ''x'')]])])],
                JObj [(''key'', JStr ''b'')]])])])])])
     ''byCategory'' [''sub'']
   = Inr ([JObj [(''key'', JStr ''x'')]], Some TypeError)"
  by (simp add: aggregationsOf_def flatTermsAggregations_def bucketsOf_def fluent_def
      flatMap_def filter_fluent_def objectPrototypeNames_def)

section \<open>Properties of the combinators\<close>

lemma andOr_none:
  "filter truthy_val items = [] \<Longrightarrow> andOr h items field = (VUndefined, h @ [ArrayCell []])"
  by (simp add: andOr_def alloc_def)

lemma andOr_single:
  "filter truthy_val items = [v] \<Longrightarrow> andOr h items field = (v, h @ [ArrayCell [v]])"
  by (simp add: andOr_def alloc_def)

lemma andOr_many:
  assumes "2 \<le> length (filter truthy_val items)"
  shows "andOr h items field =
    (VRef (length h + 2),
     h @ [ArrayCell (filter truthy_val items),
          ObjectCell [(field, VRef (length h))],
          ObjectCell [(''bool'', VRef (length h + 1))]])"
proof -
  from assms obtain a b rest where "filter truthy_val items = a # b # rest"
    by (auto simp: numeral_2_eq_2 Suc_le_length_iff)
  then show ?thesis
    by (simp add: andOr_def alloc_def)
qed

text \<open>No call changes an object that existed before it.\<close>

lemma andOr_keeps_cells:
  "r < length h \<Longrightarrow> cell_at (snd (andOr h items field)) r = cell_at h r"
  by (cases "filter truthy_val items" rule: list.exhaust)
     (auto simp: andOr_def alloc_def cell_at_def nth_append split: list.splits)

text \<open>
  C2. For every list of optional fragments, \<^verbatim>\<open>and\<close> and likewise \<^verbatim>\<open>or\<close> return
  \<^verbatim>\<open>undefined\<close> when no element survives the filter; the one surviving element itself when
  exactly one does (the value returned is the element, so a fragment comes back under its
  own address, and the store gains nothing but the array made by the filter: no copy is
  allocated); and, when two or more survive, a new object \<^verbatim>\<open>{ bool: { must: values } }\<close>
  (\<^verbatim>\<open>should\<close> for \<^verbatim>\<open>or\<close>) whose list holds exactly the survivors in their original order.
\<close>

theorem and_or_survivors:
  "(filter truthy_val items = [] \<longrightarrow>
      fst (and_filter h items) = VUndefined \<and> fst (or_filter h items) = VUndefined)
   \<and> (filter truthy_val items = [v] \<longrightarrow>
      and_filter h items = (v, h @ [ArrayCell [v]])
      \<and> or_filter h items = (v, h @ [ArrayCell [v]]))
   \<and> (2 \<le> length (filter truthy_val items) \<longrightarrow>
      and_filter h items =
        (VRef (length h + 2),
         h @ [ArrayCell (filter truthy_val items),
              ObjectCell [(''must'', VRef (length h))],
              ObjectCell [(''bool'', VRef (length h + 1))]])
      \<and> or_filter h items =
        (VRef (length h + 2),
         h @ [ArrayCell (filter truthy_val items),
              ObjectCell [(''should'', VRef (length h))],
              ObjectCell [(''bool'', VRef (length h + 1))]]))"
  by (simp add: and_filter_def or_filter_def andOr_none andOr_single andOr_many)

theorem and_or_survivors_witness:
  "filter truthy_val [VUndefined, VNull] = []
   \<and> fst (and_filter [] [VUndefined, VNull]) = VUndefined
   \<and> fst (or_filter [] [VUndefined, VNull]) = VUndefined
   \<and> filter truthy_val [VUndefined, VRef 0] = [VRef 0]
   \<and> and_filter [ObjectCell [(''expected'', VStr ''value'')]] [VUndefined, VRef 0]
       = (VRef 0, [ObjectCell [(''expected'', VStr ''value'')], ArrayCell [VRef 0]])
   \<and> or_filter [ObjectCell [(''expected'', VStr ''value'')]] [VUndefined, VRef 0]
       = (VRef 0, [ObjectCell [(''expected'', VStr ''value'')], ArrayCell [VRef 0]])
   \<and> 2 \<le> length (filter truthy_val [VRef 0, VUndefined, VRef 1])
   \<and> and_filter
        [ObjectCell [(''expected'', VStr ''value'')], ObjectCell [(''expect'', VStr ''value2'')]]
        [VRef 0, VUndefined, VRef 1]
       = (VRef 4,
          [ObjectCell [(''expected'', VStr ''value'')], ObjectCell [(''expect'', VStr ''value2'')],
           ArrayCell [VRef 0, VRef 1], ObjectCell [(''must'', VRef 2)],
           ObjectCell [(''bool'', VRef 3)]])
   \<and> or_filter
        [ObjectCell [(''expected'', VStr ''value'')], ObjectCell [(''expect'', VStr ''value2'')]]
        [VRef 0, VUndefined, VRef 1]
       = (VRef 4,
          [ObjectCell [(''expected'', VStr ''value'')], ObjectCell [(''expect'', VStr ''value2'')],
           ArrayCell [VRef 0, VRef 1], ObjectCell [(''should'', VRef 2)],
           ObjectCell [(''bool'', VRef 3)]])"
  using and_or_survivors [of "[VUndefined, VNull]" "[]"]
    and_or_survivors [of "[VUndefined, VRef 0]" "[ObjectCell [(''expected'', VStr ''value'')]]"
      "VRef 0"]
    and_or_survivors [of "[VRef 0, VUndefined, VRef 1]"
      "[ObjectCell [(''expected'', VStr ''value'')], ObjectCell [(''expect'', VStr ''value2'')]]"]
  by simp

end
